theory Spec2Isabelle
  imports Complex_Main
begin

section \<open>Python values, exceptions and results\<close>

text \<open>
  The modules of \<^verbatim>\<open>flash_deepseek_v3_modeling.py\<close>, \<^verbatim>\<open>flash_neox_modeling.py\<close>,
  \<^verbatim>\<open>flash_starcoder2_modeling.py\<close> and the fixture \<^verbatim>\<open>service.py\<close> are embedded as
  HOL functions. A Python exception is a value of type \<open>error\<close>; a function that can
  raise returns \<open>error + 'a\<close>, with \<open>Inl\<close> for the exception. Tensor elements are
  idealised as real numbers, so tensor arithmetic is exact.
\<close>

datatype error =
    ValueError string
  | NotImplementedError string
  | ZeroDivisionError
  | RuntimeError string
  | AttributeError
  | NotFound
  | APIError string

definition bindE :: "error + 'a \<Rightarrow> ('a \<Rightarrow> error + 'b) \<Rightarrow> error + 'b" where
  "bindE m f = (case m of Inl e \<Rightarrow> Inl e | Inr x \<Rightarrow> f x)"

datatype pyval = PNone | PBool bool | PInt int | PFloat real | PStr string

text \<open>Truth value of a Python object, as \<^verbatim>\<open>if x:\<close> tests it.\<close>

fun truthy :: "pyval \<Rightarrow> bool" where
  "truthy PNone = False"
| "truthy (PBool b) = b"
| "truthy (PInt i) = (i \<noteq> 0)"
| "truthy (PFloat r) = (r \<noteq> 0)"
| "truthy (PStr s) = (s \<noteq> [])"

text \<open>Python's \<^verbatim>\<open>x != 1\<close>: \<^verbatim>\<open>True\<close> and \<^verbatim>\<open>1.0\<close> compare equal to \<^verbatim>\<open>1\<close>.\<close>

fun ne_one :: "pyval \<Rightarrow> bool" where
  "ne_one PNone = True"
| "ne_one (PBool b) = (\<not> b)"
| "ne_one (PInt i) = (i \<noteq> 1)"
| "ne_one (PFloat r) = (r \<noteq> 1)"
| "ne_one (PStr s) = True"

section \<open>DeepseekV3Config\<close>

text \<open>
  A call \<^verbatim>\<open>DeepseekV3Config(k1=v1, ...)\<close> is the dictionary of its keyword arguments.
  Python binds a keyword that names a parameter of the signature to that parameter
  (\<open>param\<close>, with the signature's default when the keyword is absent) and collects
  only the remaining keywords in \<^verbatim>\<open>**kwargs\<close> (\<open>kwargs_of\<close>).
\<close>

type_synonym pydict = "string \<rightharpoonup> pyval"

definition DeepseekV3Config_params :: "string list" where
  "DeepseekV3Config_params =
    [''vocab_size'', ''hidden_size'', ''intermediate_size'', ''moe_intermediate_size'',
     ''num_hidden_layers'', ''num_attention_heads'', ''num_key_value_heads'',
     ''n_shared_experts'', ''n_routed_experts'', ''ep_size'', ''routed_scaling_factor'',
     ''kv_lora_rank'', ''q_lora_rank'', ''qk_rope_head_dim'', ''v_head_dim'',
     ''qk_nope_head_dim'', ''topk_method'', ''n_group'', ''topk_group'',
     ''num_experts_per_tok'', ''moe_layer_freq'', ''first_k_dense_replace'',
     ''norm_topk_prob'', ''scoring_func'', ''aux_loss_alpha'', ''seq_aux'', ''hidden_act'',
     ''max_position_embeddings'', ''initializer_range'', ''rms_norm_eps'', ''use_cache'',
     ''pad_token_id'', ''bos_token_id'', ''eos_token_id'', ''pretraining_tp'',
     ''tie_word_embeddings'', ''rope_theta'', ''rope_scaling'', ''attention_bias'',
     ''attention_dropout'']"

definition param :: "pydict \<Rightarrow> string \<Rightarrow> pyval \<Rightarrow> pyval" where
  "param call name dflt = (case call name of Some v \<Rightarrow> v | None \<Rightarrow> dflt)"

definition kwargs_of :: "pydict \<Rightarrow> pydict" where
  "kwargs_of call = (\<lambda>k. if k \<in> set DeepseekV3Config_params then None else call k)"

text \<open>\<^verbatim>\<open>d.pop(key, default)\<close>: the value and the dictionary without the key.\<close>

definition dict_pop :: "pydict \<Rightarrow> string \<Rightarrow> pyval \<Rightarrow> pyval \<times> pydict" where
  "dict_pop d k dflt = (case d k of Some v \<Rightarrow> (v, d(k := None)) | None \<Rightarrow> (dflt, d))"

text \<open>
  The result of a successful construction: the attributes the constructor assigns itself,
  and the keyword dictionary it hands to \<^verbatim>\<open>PretrainedConfig.__init__\<close> (a class of the
  transformers library).
\<close>

record DeepseekV3Config =
  attrs :: pydict
  super_kwargs :: pydict

definition DeepseekV3Config_init :: "pydict \<Rightarrow> error + DeepseekV3Config" where
  "DeepseekV3Config_init call =
    (let num_attention_heads = param call ''num_attention_heads'' (PInt 32);
         num_key_value_heads0 = param call ''num_key_value_heads'' (PInt 32);
         ep_size = param call ''ep_size'' (PInt 1);
         kwargs = kwargs_of call;
         num_key_value_heads =
           (if num_key_value_heads0 = PNone then num_attention_heads else num_key_value_heads0);
         self = [
           ''vocab_size'' \<mapsto> param call ''vocab_size'' (PInt 102400),
           ''max_position_embeddings'' \<mapsto> param call ''max_position_embeddings'' (PInt 2048),
           ''hidden_size'' \<mapsto> param call ''hidden_size'' (PInt 4096),
           ''intermediate_size'' \<mapsto> param call ''intermediate_size'' (PInt 11008),
           ''moe_intermediate_size'' \<mapsto> param call ''moe_intermediate_size'' (PInt 1407),
           ''num_hidden_layers'' \<mapsto> param call ''num_hidden_layers'' (PInt 30),
           ''num_attention_heads'' \<mapsto> num_attention_heads,
           ''n_shared_experts'' \<mapsto> param call ''n_shared_experts'' (PInt 2),
           ''n_routed_experts'' \<mapsto> param call ''n_routed_experts'' (PInt 160),
           ''ep_size'' \<mapsto> ep_size,
           ''routed_scaling_factor'' \<mapsto> param call ''routed_scaling_factor'' (PFloat 1),
           ''kv_lora_rank'' \<mapsto> param call ''kv_lora_rank'' (PInt 512),
           ''q_lora_rank'' \<mapsto> param call ''q_lora_rank'' (PInt 1536),
           ''qk_rope_head_dim'' \<mapsto> param call ''qk_rope_head_dim'' (PInt 64),
           ''v_head_dim'' \<mapsto> param call ''v_head_dim'' (PInt 128),
           ''qk_nope_head_dim'' \<mapsto> param call ''qk_nope_head_dim'' (PInt 128),
           ''topk_method'' \<mapsto> param call ''topk_method'' (PStr ''gready''),
           ''n_group'' \<mapsto> param call ''n_group'' (PInt 8),
           ''topk_group'' \<mapsto> param call ''topk_group'' (PInt 3),
           ''num_experts_per_tok'' \<mapsto> param call ''num_experts_per_tok'' (PInt 6),
           ''moe_layer_freq'' \<mapsto> param call ''moe_layer_freq'' (PInt 1),
           ''first_k_dense_replace'' \<mapsto> param call ''first_k_dense_replace'' (PInt 0),
           ''norm_topk_prob'' \<mapsto> param call ''norm_topk_prob'' (PBool False),
           ''scoring_func'' \<mapsto> param call ''scoring_func'' (PStr ''softmax''),
           ''aux_loss_alpha'' \<mapsto> param call ''aux_loss_alpha'' (PFloat (1 / 1000)),
           ''seq_aux'' \<mapsto> param call ''seq_aux'' (PBool True),
           ''num_key_value_heads'' \<mapsto> num_key_value_heads,
           ''hidden_act'' \<mapsto> param call ''hidden_act'' (PStr ''silu''),
           ''initializer_range'' \<mapsto> param call ''initializer_range'' (PFloat (2 / 100)),
           ''rms_norm_eps'' \<mapsto> param call ''rms_norm_eps'' (PFloat (1 / 1000000)),
           ''pretraining_tp'' \<mapsto> param call ''pretraining_tp'' (PInt 1),
           ''use_cache'' \<mapsto> param call ''use_cache'' (PBool True),
           ''rope_theta'' \<mapsto> param call ''rope_theta'' (PFloat 10000),
           ''rope_scaling'' \<mapsto> param call ''rope_scaling'' PNone,
           ''attention_bias'' \<mapsto> param call ''attention_bias'' (PBool False),
           ''attention_dropout'' \<mapsto> param call ''attention_dropout'' (PFloat 0)];
         (tie_word_embeddings, kwargs') = dict_pop kwargs ''tie_word_embeddings'' (PBool False)
     in if truthy tie_word_embeddings then
          Inl (ValueError ''tie_word_embeddings is not supported for Deepseek V2 models.'')
        else if ne_one ep_size then
          Inl (ValueError ''Currently only ep_size == 1 is supported for Deepseek V2 models'')
        else
          Inr \<lparr> attrs = self,
                super_kwargs = kwargs'(
                  ''pad_token_id'' \<mapsto> param call ''pad_token_id'' PNone,
                  ''bos_token_id'' \<mapsto> param call ''bos_token_id'' (PInt 100000),
                  ''eos_token_id'' \<mapsto> param call ''eos_token_id'' (PInt 100001),
                  ''tie_word_embeddings'' \<mapsto> tie_word_embeddings) \<rparr>)"

section \<open>Tensors\<close>

text \<open>
  A tensor is a nested list in row-major order: a 2-D tensor of shape \<open>(T, W)\<close> is a list
  of \<open>T\<close> rows of length \<open>W\<close>, a 3-D tensor of shape \<open>(T, N, D)\<close> a list of \<open>T\<close>
  lists of \<open>N\<close> vectors of length \<open>D\<close>. The torch operations the modules call are
  written out with the shape checks under which torch raises \<^verbatim>\<open>RuntimeError\<close>.
\<close>

type_synonym vec = "real list"
type_synonym mat = "real list list"
type_synonym ten3 = "real list list list"

definition shape_error :: "error + 'a" where
  "shape_error = Inl (RuntimeError ''shape mismatch'')"

text \<open>The first \<open>k\<close> consecutive pieces of length \<open>n\<close>, and all full pieces.\<close>

definition pieces :: "nat \<Rightarrow> nat \<Rightarrow> 'a list \<Rightarrow> 'a list list" where
  "pieces k n xs = map (\<lambda>i. take n (drop (i * n) xs)) [0..<k]"

definition chunks :: "nat \<Rightarrow> 'a list \<Rightarrow> 'a list list" where
  "chunks n xs = pieces (length xs div n) n xs"

text \<open>\<^verbatim>\<open>x.view(-1, b)\<close> and \<^verbatim>\<open>x.view(-1, a, b)\<close> of the elements \<open>flat\<close> in row-major order.\<close>

definition view2 :: "nat \<Rightarrow> vec \<Rightarrow> error + mat" where
  "view2 b flat =
    (if b = 0 \<or> length flat mod b \<noteq> 0 then shape_error else Inr (chunks b flat))"

definition view3 :: "nat \<Rightarrow> nat \<Rightarrow> vec \<Rightarrow> error + ten3" where
  "view3 a b flat =
    (if a * b = 0 \<or> length flat mod (a * b) \<noteq> 0 then shape_error
     else Inr (map (chunks b) (chunks (a * b) flat)))"

text \<open>\<^verbatim>\<open>torch.split(x, [a, b], dim=-1)\<close> on one row, on a 2-D and on a 3-D tensor.\<close>

definition split_row :: "nat \<Rightarrow> nat \<Rightarrow> vec \<Rightarrow> bool" where
  "split_row a b r = (length r = a + b)"

definition split2 :: "nat \<Rightarrow> nat \<Rightarrow> mat \<Rightarrow> error + (mat \<times> mat)" where
  "split2 a b x =
    (if list_all (split_row a b) x then Inr (map (take a) x, map (drop a) x)
     else shape_error)"

definition split3 :: "nat \<Rightarrow> nat \<Rightarrow> ten3 \<Rightarrow> error + (ten3 \<times> ten3)" where
  "split3 a b x =
    (if list_all (list_all (split_row a b)) x
     then Inr (map (map (take a)) x, map (map (drop a)) x)
     else shape_error)"

text \<open>\<^verbatim>\<open>torch.cat((x, y), dim=-1)\<close>: the leading dimensions must agree.\<close>

definition cat2 :: "mat \<Rightarrow> mat \<Rightarrow> error + mat" where
  "cat2 x y = (if length x = length y then Inr (map2 (@) x y) else shape_error)"

definition cat3 :: "ten3 \<Rightarrow> ten3 \<Rightarrow> error + ten3" where
  "cat3 x y =
    (if length x = length y \<and> list_all2 (\<lambda>a b. length a = length b) x y
     then Inr (map2 (map2 (@)) x y) else shape_error)"

text \<open>\<^verbatim>\<open>torch.nn.functional.pad(x, (0, k), value=0)\<close> and \<^verbatim>\<open>x[..., :k]\<close>.\<close>

definition pad_last :: "nat \<Rightarrow> ten3 \<Rightarrow> ten3" where
  "pad_last k x = map (map (\<lambda>r. r @ replicate k 0)) x"

definition slice_last :: "nat \<Rightarrow> ten3 \<Rightarrow> ten3" where
  "slice_last k x = map (map (take k)) x"

text \<open>
  Broadcasting one dimension to size \<open>n\<close>: a dimension of that size stays, a dimension of
  size 1 is repeated, anything else is an error.
\<close>

definition bcast :: "nat \<Rightarrow> 'a list \<Rightarrow> error + 'a list" where
  "bcast n xs =
    (if length xs = n then Inr xs
     else if length xs = 1 then Inr (replicate n (hd xs))
     else shape_error)"

fun sequenceE :: "(error + 'a) list \<Rightarrow> error + 'a list" where
  "sequenceE [] = Inr []"
| "sequenceE (m # ms) = bindE m (\<lambda>x. bindE (sequenceE ms) (\<lambda>xs. Inr (x # xs)))"

text \<open>
  The source \<open>src\<close> of an assignment to a slice of shape \<open>(length dst, n, d)\<close>,
  broadcast to that shape.
\<close>

definition bcast_src :: "ten3 \<Rightarrow> nat \<Rightarrow> nat \<Rightarrow> ten3 \<Rightarrow> error + ten3" where
  "bcast_src dst n d src =
    bindE (bcast (length dst) src) (\<lambda>s.
    sequenceE (map (\<lambda>m. bindE (bcast n m) (\<lambda>rs. sequenceE (map (bcast d) rs))) s))"

text \<open>\<^verbatim>\<open>dst[..., p:] = src\<close> and \<^verbatim>\<open>dst[..., :p] = src\<close> for \<open>dst\<close> of shape \<open>(T, n, h)\<close>.\<close>

definition assign_from :: "nat \<Rightarrow> nat \<Rightarrow> nat \<Rightarrow> ten3 \<Rightarrow> ten3 \<Rightarrow> error + ten3" where
  "assign_from n h p dst src =
    bindE (bcast_src dst n (h - p) src) (\<lambda>s.
    Inr (map2 (map2 (\<lambda>r v. take p r @ v)) dst s))"

definition assign_upto :: "nat \<Rightarrow> nat \<Rightarrow> nat \<Rightarrow> ten3 \<Rightarrow> ten3 \<Rightarrow> error + ten3" where
  "assign_upto n h p dst src =
    bindE (bcast_src dst n (min p h) src) (\<lambda>s.
    Inr (map2 (map2 (\<lambda>r v. v @ drop p r)) dst s))"

text \<open>\<^verbatim>\<open>x.unflatten(0, (s, -1))\<close> of a 2-D tensor.\<close>

definition unflatten0 :: "nat \<Rightarrow> mat \<Rightarrow> error + ten3" where
  "unflatten0 s x =
    (if s = 0 \<or> length x mod s \<noteq> 0 then shape_error
     else if x = [] then Inr (replicate s [])
     else Inr (chunks (length x div s) x))"

text \<open>
  \<^verbatim>\<open>x.view(b, h, d // 2, 2).transpose(2, 3).reshape(b, h, d)\<close> with \<open>(b, h, d) = x.shape\<close>:
  every vector of even length is regrouped, even positions first; an odd length does not
  fit the view.
\<close>

definition deinterleave_row :: "vec \<Rightarrow> vec" where
  "deinterleave_row r = concat (transpose (chunks 2 r))"

definition deinterleave :: "ten3 \<Rightarrow> error + ten3" where
  "deinterleave x =
    (if list_all (list_all (\<lambda>r. even (length r))) x
     then Inr (map (map deinterleave_row) x) else shape_error)"

text \<open>Dot product, \<^verbatim>\<open>torch.nn.functional.linear\<close> and \<^verbatim>\<open>torch.bmm\<close>.\<close>

definition dot :: "vec \<Rightarrow> vec \<Rightarrow> real" where
  "dot x y = sum_list (map2 (*) x y)"

definition F_linear :: "mat \<Rightarrow> vec option \<Rightarrow> mat \<Rightarrow> error + mat" where
  "F_linear w b x =
    (if \<not> list_all (\<lambda>r. list_all (\<lambda>wr. length wr = length r) w) x then shape_error
     else case b of
       None \<Rightarrow> Inr (map (\<lambda>r. map (\<lambda>wr. dot wr r) w) x)
     | Some bv \<Rightarrow>
         if length bv = length w
         then Inr (map (\<lambda>r. map2 (\<lambda>wr bj. dot wr r + bj) w bv) x)
         else shape_error)"

text \<open>One batch entry of \<^verbatim>\<open>bmm\<close>: \<open>a\<close> of shape \<open>(B, P)\<close> times \<open>m\<close> of shape \<open>(P, L)\<close>.\<close>

definition matmul :: "mat \<Rightarrow> mat \<Rightarrow> error + mat" where
  "matmul a m =
    (if list_all (\<lambda>r. length r = length m) a \<and> list_all (\<lambda>c. length c = length (hd m)) m
     then Inr (map (\<lambda>r. map (\<lambda>col. dot r col) (transpose m)) a)
     else shape_error)"

text \<open>
  \<^verbatim>\<open>x.transpose(0, 1)\<close> of a 3-D tensor whose second dimension has size \<open>n\<close>.
\<close>

definition transpose01 :: "nat \<Rightarrow> ten3 \<Rightarrow> ten3" where
  "transpose01 n x = (if x = [] then replicate n [] else transpose x)"

definition bmm :: "ten3 \<Rightarrow> ten3 \<Rightarrow> error + ten3" where
  "bmm a m = (if length a = length m then sequenceE (map2 matmul a m) else shape_error)"


section \<open>Layers and weights\<close>

text \<open>
  A linear layer is a \<^verbatim>\<open>FastLinear\<close> with its weight of shape (output, input) and
  optional bias, or an \<^verbatim>\<open>Fp8Linear\<close>, given by the last dimension of its quantised
  weight and its forward function.
\<close>

datatype layer =
    FastLinear mat "vec option"
  | Fp8Linear nat "mat \<Rightarrow> error + mat"

fun layer_forward :: "layer \<Rightarrow> mat \<Rightarrow> error + mat" where
  "layer_forward (FastLinear w b) x = F_linear w b x"
| "layer_forward (Fp8Linear n f) x = f x"


type_synonym kv_scales = "real \<times> real"

text \<open>
  A weight object is an \<^verbatim>\<open>UnquantizedWeight\<close> with its tensor, or a quantised weight,
  given by its \<^verbatim>\<open>get_linear\<close> method.
\<close>

datatype weight =
    UnquantizedWeight mat
  | QuantizedWeight "vec option \<Rightarrow> layer"


text \<open>
  The \<^verbatim>\<open>Weights\<close> object with its process group, and the loaders of
  \<^verbatim>\<open>text_generation_server.layers\<close> applied to it. A row-parallel linear layer is
  given by its forward function, which takes the \<^verbatim>\<open>reduce\<close> flag; a normalisation
  layer by the first component of what its forward returns.
\<close>

record weights =
  process_group_size :: nat
  process_group_rank :: nat
  get_weights :: "string \<Rightarrow> weight"
  get_weights_row :: "string \<Rightarrow> weight"
  get_tensor :: "string \<Rightarrow> vec"
  TensorParallelColumnLinear_load :: "string \<Rightarrow> bool \<Rightarrow> layer"
  TensorParallelColumnLinear_load_multi :: "string list \<Rightarrow> bool \<Rightarrow> layer"
  TensorParallelRowLinear_load :: "string \<Rightarrow> bool \<Rightarrow> bool \<Rightarrow> mat \<Rightarrow> error + mat"
  FastLinear_load :: "string \<Rightarrow> bool \<Rightarrow> layer"
  FastRMSNorm_load :: "string \<Rightarrow> real \<Rightarrow> mat \<Rightarrow> mat"
  get_kv_scales :: "string \<Rightarrow> kv_scales"

text \<open>
  The configuration attributes the modules read. Dimensions and counts are natural
  numbers.
\<close>

record config =
  num_attention_heads :: nat
  num_key_value_heads :: nat
  hidden_size :: nat
  intermediate_size :: nat
  moe_intermediate_size :: nat
  n_shared_experts :: "nat option"
  kv_lora_rank :: nat
  q_lora_rank :: "nat option"
  qk_nope_head_dim :: nat
  qk_rope_head_dim :: nat
  v_head_dim :: nat
  attention_bias :: bool
  rms_norm_eps :: real
  hidden_act :: string
  quantize :: "string option"
  n_routed_experts :: nat
  topk_method :: string
  routed_scaling_factor :: real
  rotary_pct :: real
  use_parallel_residual :: bool
  sliding_window :: "int option"
  use_bias :: "bool option"

section \<open>DeepseekV3Attention\<close>

record PositionRotaryEmbedding =
  scaling_factor :: real
  mscale_all_dim :: real
  rotate :: "ten3 \<Rightarrow> ten3 \<Rightarrow> mat \<Rightarrow> mat \<Rightarrow> ten3 \<times> ten3"

record DeepseekV3Attention =
  num_heads :: nat
  hidden_size :: nat
  kv_lora_rank :: nat
  q_lora_rank :: "nat option"
  qk_nope_head_dim :: nat
  qk_rope_head_dim :: nat
  head_size :: nat
  value_head_size :: nat
  head_pad_size :: nat
  rotary_emb :: PositionRotaryEmbedding
  softmax_scale :: real
  num_key_value_heads :: nat
  q_proj :: "layer option"
  q_a_proj :: "layer option"
  q_a_layernorm :: "(mat \<Rightarrow> mat) option"
  q_b_proj :: "layer option"
  kv_a_proj_with_mqa :: layer
  kv_scales :: kv_scales
  kv_a_layernorm :: "mat \<Rightarrow> mat"
  kv_b_proj :: layer
  o_proj :: "bool \<Rightarrow> mat \<Rightarrow> error + mat"
  num_groups :: nat
  kv_head_mapping :: "nat list"
  W_UV :: ten3
  W_UK_T :: ten3

text \<open>
  \<^verbatim>\<open>w.view(l, n, d)\<close> of the transposed weight \<open>w\<close>, whose shape must be \<open>(l, n * d)\<close>,
  and \<^verbatim>\<open>m.T\<close> of a matrix with \<open>p\<close> columns.
\<close>

definition view_weight :: "nat \<Rightarrow> nat \<Rightarrow> nat \<Rightarrow> mat \<Rightarrow> error + ten3" where
  "view_weight l n d w =
    (if length w = l \<and> list_all (\<lambda>r. length r = n * d) w
     then Inr (map (pieces n d) w) else shape_error)"

definition transpose2 :: "nat \<Rightarrow> mat \<Rightarrow> mat" where
  "transpose2 p m = (if m = [] then replicate p [] else transpose m)"


subsection \<open>forward\<close>


datatype 'meta call =
    Store ten3 "ten3 option" "nat list" kv_scales
  | Attention ten3 ten3 ten3 kv_scales "nat list" real
  | PagedAttentionMLA ten3 "nat list" real "nat list" kv_scales "'meta option" nat










text \<open>The padded query, key and value of the prefill branch.\<close>

definition empty_like :: "ten3 \<Rightarrow> ten3" where
  "empty_like x = map (map (map (\<lambda>_. 0))) x"



section \<open>DeepseekV3MLP\<close>

record DeepseekV3MLP =
  mlp_hidden_act :: string
  act :: "real \<Rightarrow> real"
  gate_up_proj :: layer
  down_proj :: "bool \<Rightarrow> mat \<Rightarrow> error + mat"
  mlp_intermediate_size :: nat
  mlp_quantize :: "string option"

text \<open>\<^verbatim>\<open>ACT2FN["silu"]\<close> of the transformers library.\<close>

definition silu :: "real \<Rightarrow> real" where
  "silu x = x / (1 + exp (- x))"

definition DeepseekV3MLP_init ::
  "string \<Rightarrow> config \<Rightarrow> weights \<Rightarrow> nat \<Rightarrow> error + DeepseekV3MLP" where
  "DeepseekV3MLP_init prefix config weights intermediate =
    (if hidden_act config \<noteq> ''silu'' then
       Inl (NotImplementedError
              ''Currently only `silu` is supported as an activation for Deepseek V2.'')
     else if process_group_size weights = 0 then Inl ZeroDivisionError
     else
       Inr \<lparr> mlp_hidden_act = hidden_act config,
             act = silu,
             gate_up_proj =
               TensorParallelColumnLinear_load_multi weights
                 [prefix @ ''.gate_proj'', prefix @ ''.up_proj''] False,
             down_proj = TensorParallelRowLinear_load weights (prefix @ ''.down_proj'') False,
             mlp_intermediate_size = intermediate div process_group_size weights,
             mlp_quantize = quantize config \<rparr>)"

definition DeepseekV3MLP_forward :: "DeepseekV3MLP \<Rightarrow> mat \<Rightarrow> bool \<Rightarrow> error + mat" where
  "DeepseekV3MLP_forward self hidden_states reduce =
    bindE (layer_forward (gate_up_proj self) hidden_states) (\<lambda>gate_up_states.
    bindE (view3 2 (mlp_intermediate_size self) (concat gate_up_states)) (\<lambda>gate_up_states.
    down_proj self reduce
      (map (\<lambda>g. map2 (\<lambda>a b. act self a * b) (g ! 0) (g ! 1)) gate_up_states)))"

section \<open>DeepseekV3MoE\<close>

record DeepseekV3MoE =
  hidden_dim :: nat
  moe_intermediate_size_per_shard :: nat
  moe_routed_scaling_factor :: real
  gate :: layer
  e_score_correction_bias :: "vec option"
  moe_layer :: "mat \<Rightarrow> mat \<Rightarrow> error + mat"
  shared_experts :: "DeepseekV3MLP option"
  process_group :: nat

text \<open>
  \<open>moe_layer_cls\<close> is the class of the routed experts (\<^verbatim>\<open>SparseMoELayer\<close> or
  \<^verbatim>\<open>DenseMoELayer\<close>), given by the forward function of the layer it constructs.
\<close>

definition DeepseekV3MoE_init ::
  "string \<Rightarrow> config \<Rightarrow> (string \<Rightarrow> config \<Rightarrow> weights \<Rightarrow> vec option \<Rightarrow> mat \<Rightarrow> mat \<Rightarrow> error + mat)
    \<Rightarrow> weights \<Rightarrow> error + DeepseekV3MoE" where
  "DeepseekV3MoE_init prefix config moe_layer_cls weights =
    (if process_group_size weights = 0 then Inl ZeroDivisionError
     else
       let bias = (if topk_method config = ''noaux_tc''
                   then Some (replicate (n_routed_experts config) 0) else None)
       in
       bindE (case n_shared_experts config of
                Some n \<Rightarrow>
                  bindE (DeepseekV3MLP_init (prefix @ ''.shared_experts'') config weights
                           (config.moe_intermediate_size config * n)) (\<lambda>m. Inr (Some m))
              | None \<Rightarrow> Inr None) (\<lambda>shared.
       Inr \<lparr> hidden_dim = config.hidden_size config,
             moe_intermediate_size_per_shard =
               config.moe_intermediate_size config div process_group_size weights,
             moe_routed_scaling_factor = routed_scaling_factor config,
             gate = FastLinear_load weights (prefix @ ''.gate'') False,
             e_score_correction_bias = bias,
             moe_layer = moe_layer_cls (prefix @ ''.experts'') config weights bias,
             shared_experts = shared,
             process_group = process_group_size weights \<rparr>))"

text \<open>Elementwise \<^verbatim>\<open>a + b\<close> of 2-D tensors, with broadcasting.\<close>

definition bcast_pair :: "'a list \<Rightarrow> 'a list \<Rightarrow> error + ('a list \<times> 'a list)" where
  "bcast_pair a b =
    (let n = (if length a = 1 then length b else length a)
     in bindE (bcast n a) (\<lambda>a'. bindE (bcast n b) (\<lambda>b'. Inr (a', b'))))"

definition add_row :: "vec \<Rightarrow> vec \<Rightarrow> error + vec" where
  "add_row a b = bindE (bcast_pair a b) (\<lambda>(a', b'). Inr (map2 (+) a' b'))"

definition add2 :: "mat \<Rightarrow> mat \<Rightarrow> error + mat" where
  "add2 a b = bindE (bcast_pair a b) (\<lambda>(a', b'). sequenceE (map2 add_row a' b'))"

text \<open>\<^verbatim>\<open>out.view(*x.shape)\<close>: the elements of \<open>out\<close> in the shape of \<open>x\<close>.\<close>

fun unflat :: "nat list \<Rightarrow> 'a list \<Rightarrow> 'a list list" where
  "unflat [] xs = []"
| "unflat (n # ns) xs = take n xs # unflat ns (drop n xs)"

definition view_as :: "mat \<Rightarrow> mat \<Rightarrow> error + mat" where
  "view_as x out =
    (if length (concat out) = length (concat x)
     then Inr (unflat (map length x) (concat out)) else shape_error)"

text \<open>
  \<open>all_reduce\<close> is \<^verbatim>\<open>torch.distributed.all_reduce\<close> on the module's process group:
  what this rank's tensor becomes. The result of forward is the tensor it returns and
  the list of tensors it has handed to \<open>all_reduce\<close>.
\<close>

definition DeepseekV3MoE_forward ::
  "(mat \<Rightarrow> error + mat) \<Rightarrow> DeepseekV3MoE \<Rightarrow> mat \<Rightarrow> error + (mat \<times> mat list)" where
  "DeepseekV3MoE_forward all_reduce self x =
    bindE (case shared_experts self of
             Some m \<Rightarrow> bindE (DeepseekV3MLP_forward m x False) (\<lambda>y. Inr (Some y))
           | None \<Rightarrow> Inr None) (\<lambda>shared_output.
    bindE (layer_forward (gate self) x) (\<lambda>router_logits.
    bindE (moe_layer self x router_logits) (\<lambda>out.
    bindE (case shared_output of Some y \<Rightarrow> add2 out y | None \<Rightarrow> Inr out) (\<lambda>out.
    if process_group self > 1 then
      bindE (all_reduce out) (\<lambda>reduced.
      bindE (view_as x reduced) (\<lambda>r. Inr (r, [out])))
    else
      bindE (view_as x out) (\<lambda>r. Inr (r, []))))))"

text \<open>
  The computation on one worker with no process group, in the words of the specification:
  the output of the MoE layer plus the output of the shared experts, with no
  communication.
\<close>

definition moe_non_distributed :: "DeepseekV3MoE \<Rightarrow> mat \<Rightarrow> error + mat" where
  "moe_non_distributed self x =
    (case shared_experts self of
       None \<Rightarrow>
         bindE (layer_forward (gate self) x) (\<lambda>router_logits.
         bindE (moe_layer self x router_logits) (\<lambda>routed. view_as x routed))
     | Some m \<Rightarrow>
         bindE (DeepseekV3MLP_forward m x False) (\<lambda>shared.
         bindE (layer_forward (gate self) x) (\<lambda>router_logits.
         bindE (moe_layer self x router_logits) (\<lambda>routed.
         bindE (add2 routed shared) (\<lambda>total. view_as x total)))))"

section \<open>GPT-NeoX\<close>








section \<open>Starcoder2\<close>



section \<open>The KV cache and the attention kernels\<close>
















definition shape3 :: "nat \<Rightarrow> nat \<Rightarrow> ten3 \<Rightarrow> bool" where
  "shape3 n d x = list_all (\<lambda>t. length t = n \<and> list_all (\<lambda>r. length r = d) t) x"


section \<open>Row-parallel linear layers across the workers\<close>

text \<open>
  The sum that \<^verbatim>\<open>torch.distributed.all_reduce\<close> leaves on every worker: \<open>y r\<close> is the
  tensor of worker \<open>r\<close> of \<open>n\<close>, all of the shape of \<open>y 0\<close>.
\<close>

definition all_reduce_sum :: "nat \<Rightarrow> (nat \<Rightarrow> mat) \<Rightarrow> mat" where
  "all_reduce_sum n y =
    map (\<lambda>t. map (\<lambda>j. \<Sum>r<n. y r ! t ! j) [0..<length (y 0 ! t)]) [0..<length (y 0)]"

section \<open>The docker\_launcher fixture\<close>

text \<open>
  The Docker daemon is a state: the containers by name, the API calls received so far,
  what the fixture has printed to standard error and what it has logged. A call of the
  Docker API on a container is recorded, then raises the exception the environment has
  planned for it (\<open>faults\<close>), or \<^verbatim>\<open>NotFound\<close> when there is no container of that name.
\<close>

datatype api = Get | Stop | Wait | Logs | Remove | Run

record container =
  status :: string
  output_log :: string

record docker =
  containers :: "string \<rightharpoonup> container"
  api_calls :: "(api \<times> string) list"
  stderr :: "string list"
  logged :: "(string \<times> string) list"

type_synonym faults = "api \<Rightarrow> error option"

definition bindIO ::
  "(docker \<Rightarrow> (error + 'a) \<times> docker) \<Rightarrow> ('a \<Rightarrow> docker \<Rightarrow> (error + 'b) \<times> docker)
    \<Rightarrow> docker \<Rightarrow> (error + 'b) \<times> docker" where
  "bindIO m f d = (case m d of (Inl e, d') \<Rightarrow> (Inl e, d') | (Inr x, d') \<Rightarrow> f x d')"

definition docker_call :: "faults \<Rightarrow> api \<Rightarrow> string \<Rightarrow> docker \<Rightarrow> (error + container) \<times> docker" where
  "docker_call f a name d =
    (let d' = d\<lparr>api_calls := api_calls d @ [(a, name)]\<rparr>
     in case f a of
          Some e \<Rightarrow> (Inl e, d')
        | None \<Rightarrow>
            (case containers d name of
               None \<Rightarrow> (Inl NotFound, d')
             | Some c \<Rightarrow> (Inr c, d')))"

definition logger :: "string \<Rightarrow> string \<Rightarrow> docker \<Rightarrow> (error + unit) \<times> docker" where
  "logger level msg d = (Inr (), d\<lparr>logged := logged d @ [(level, msg)]\<rparr>)"

definition container_stop :: "faults \<Rightarrow> string \<Rightarrow> docker \<Rightarrow> (error + unit) \<times> docker" where
  "container_stop f name =
    bindIO (docker_call f Stop name) (\<lambda>c d.
      (Inr (), d\<lparr>containers := (containers d)(name \<mapsto> c\<lparr>status := ''exited''\<rparr>)\<rparr>))"

definition container_remove :: "faults \<Rightarrow> string \<Rightarrow> docker \<Rightarrow> (error + unit) \<times> docker" where
  "container_remove f name =
    bindIO (docker_call f Remove name) (\<lambda>c d.
      (Inr (), d\<lparr>containers := (containers d)(name := None)\<rparr>))"

definition print_stderr :: "string \<Rightarrow> docker \<Rightarrow> (error + unit) \<times> docker" where
  "print_stderr text d = (Inr (), d\<lparr>stderr := stderr d @ [text]\<rparr>)"



text \<open>
  The \<^verbatim>\<open>finally\<close> block: \<^verbatim>\<open>NotFound\<close> is passed over, any other exception is logged
  as a warning; nothing is raised.
\<close>

definition cleanup :: "faults \<Rightarrow> string \<Rightarrow> docker \<Rightarrow> docker" where
  "cleanup f name d0 =
    (case
       bindIO (docker_call f Get name) (\<lambda>c.
       bindIO (logger ''info'' ''Stopping container'') (\<lambda>_.
       bindIO (container_stop f name) (\<lambda>_.
       bindIO (docker_call f Wait name) (\<lambda>_.
       bindIO (docker_call f Logs name) (\<lambda>c.
       bindIO (print_stderr (output_log c)) (\<lambda>_.
       bindIO (container_remove f name) (\<lambda>_.
       logger ''info'' ''Container removed successfully''))))))) d0
     of
       (Inr _, d) \<Rightarrow> d
     | (Inl e, d) \<Rightarrow>
         if e = NotFound then d
         else d\<lparr>logged := logged d @ [(''warning'', ''Error cleaning up container'')]\<rparr>)"







definition no_faults :: faults where
  "no_faults = (\<lambda>a. None)"

section \<open>Example instances\<close>


definition ex_weights :: "nat \<Rightarrow> weights" where
  "ex_weights n =
    \<lparr> process_group_size = n,
      process_group_rank = 0,
      get_weights = (\<lambda>name. UnquantizedWeight [[1, 0], [0, 1], [1, 1], [1, - 1]]),
      get_weights_row = (\<lambda>name. UnquantizedWeight [[1, 0], [0, 1]]),
      get_tensor = (\<lambda>name. [1, 1]),
      TensorParallelColumnLinear_load =
        (\<lambda>name b. if name = ''a.kv_b_proj'' then FastLinear [[1, 2], [3, 4]] None
                   else FastLinear [[1, 0], [0, 1], [1, 1]] None),
      TensorParallelColumnLinear_load_multi = (\<lambda>names b. FastLinear [[1, 0], [0, 1]] None),
      TensorParallelRowLinear_load = (\<lambda>name b reduce x. Inr x),
      FastLinear_load = (\<lambda>name b. FastLinear [[1, 0], [0, 1]] None),
      FastRMSNorm_load = (\<lambda>name eps x. x),
      get_kv_scales = (\<lambda>name. (1, 1)) \<rparr>"

definition ex_config :: "nat \<Rightarrow> nat \<Rightarrow> string \<Rightarrow> config" where
  "ex_config heads hidden actn =
    \<lparr> num_attention_heads = heads, num_key_value_heads = heads, hidden_size = hidden,
      intermediate_size = 2, moe_intermediate_size = 1, n_shared_experts = Some 1,
      kv_lora_rank = 2, q_lora_rank = None, qk_nope_head_dim = 1, qk_rope_head_dim = 2,
      v_head_dim = 1, attention_bias = False, rms_norm_eps = 1 / 1000000,
      hidden_act = actn, quantize = None, n_routed_experts = 2, topk_method = ''greedy'',
      routed_scaling_factor = 1, rotary_pct = 1 / 4, use_parallel_residual = True,
      sliding_window = None, use_bias = None \<rparr>"




definition ex_moe :: DeepseekV3MoE where
  "ex_moe =
    (case DeepseekV3MoE_init ''m'' (ex_config 1 2 ''silu'') (\<lambda>p c w b x g. Inr x)
            (ex_weights 1) of
       Inr self \<Rightarrow> self)"





section \<open>Properties of the configuration and of construction\<close>

text \<open>
  Claim C7, first half: the constructor is meant to reject \<^verbatim>\<open>tie_word_embeddings=True\<close>.
  The keyword names a parameter of the signature, so it never reaches \<^verbatim>\<open>**kwargs\<close>;
  the constructor reads the flag back with \<^verbatim>\<open>kwargs.pop("tie_word_embeddings", False)\<close>,
  which is always \<^verbatim>\<open>False\<close>. The call below is accepted, and \<^verbatim>\<open>False\<close> is what is handed
  on to \<^verbatim>\<open>PretrainedConfig.__init__\<close>.
\<close>

theorem DeepseekV3Config_accepts_tie_word_embeddings:
  "\<exists>c. DeepseekV3Config_init [''tie_word_embeddings'' \<mapsto> PBool True] = Inr c
     \<and> super_kwargs c ''tie_word_embeddings'' = Some (PBool False)"
  by (simp add: DeepseekV3Config_init_def param_def kwargs_of_def dict_pop_def
        DeepseekV3Config_params_def Let_def)

text \<open>No call at all raises the error about tied embeddings.\<close>

lemma DeepseekV3Config_never_rejects_tied_embeddings:
  "DeepseekV3Config_init call \<noteq>
    Inl (ValueError ''tie_word_embeddings is not supported for Deepseek V2 models.'')"
  by (simp add: DeepseekV3Config_init_def kwargs_of_def dict_pop_def
        DeepseekV3Config_params_def Let_def)

text \<open>Claim C7, second half: an \<^verbatim>\<open>ep_size\<close> other than 1 raises \<^verbatim>\<open>ValueError\<close>.\<close>

lemma DeepseekV3Config_rejects_ep_size:
  "ne_one (param call ''ep_size'' (PInt 1)) \<Longrightarrow> DeepseekV3Config_init call =
    Inl (ValueError ''Currently only ep_size == 1 is supported for Deepseek V2 models'')"
  by (simp add: DeepseekV3Config_init_def kwargs_of_def dict_pop_def
        DeepseekV3Config_params_def Let_def)

text \<open>
  Claim C6: constructing a \<^verbatim>\<open>DeepseekV3MLP\<close> with a hidden activation other than
  \<^verbatim>\<open>"silu"\<close> raises \<^verbatim>\<open>NotImplementedError\<close>; every module that is constructed has the
  activation \<^verbatim>\<open>silu\<close>, so forward never falls back to another one.
\<close>

theorem DeepseekV3MLP_init_only_silu:
  "(hidden_act config \<noteq> ''silu'' \<longrightarrow>
      DeepseekV3MLP_init prefix config weights n =
        Inl (NotImplementedError
              ''Currently only `silu` is supported as an activation for Deepseek V2.''))
    \<and> (\<forall>m. DeepseekV3MLP_init prefix config weights n = Inr m \<longrightarrow>
          mlp_hidden_act m = ''silu'' \<and> act m = silu)"
  by (auto simp: DeepseekV3MLP_init_def split: if_splits)

theorem DeepseekV3MLP_init_only_silu_witness:
  "DeepseekV3MLP_init ''m'' (ex_config 1 2 ''gelu'') (ex_weights 1) 4 =
        Inl (NotImplementedError
              ''Currently only `silu` is supported as an activation for Deepseek V2.'')
    \<and> (\<exists>m. DeepseekV3MLP_init ''m'' (ex_config 1 2 ''silu'') (ex_weights 1) 4 = Inr m \<and>
          mlp_hidden_act m = ''silu'' \<and> act m = silu)"
  using DeepseekV3MLP_init_only_silu [of "ex_config 1 2 ''gelu''" "''m''" "ex_weights 1" 4]
        DeepseekV3MLP_init_only_silu [of "ex_config 1 2 ''silu''" "''m''" "ex_weights 1" 4]
  by (simp add: ex_config_def ex_weights_def DeepseekV3MLP_init_def)




section \<open>Shapes of the tensors in forward\<close>


lemma shape_error_neq [simp]: "shape_error \<noteq> Inr x" "Inr x \<noteq> shape_error"
  by (auto simp: shape_error_def)

lemma length_pieces [simp]: "length (pieces k n xs) = k"
  by (simp add: pieces_def)

lemma nth_pieces: "i < k \<Longrightarrow> pieces k n xs ! i = take n (drop (i * n) xs)"
  by (simp add: pieces_def)










lemma split3_shape:
  assumes "split3 a b x = Inr (u, v)" "shape3 n d x"
  shows "shape3 n a u" "shape3 n b v"
proof -
  from assms(1) have w: "\<forall>t\<in>set x. \<forall>r\<in>set t. length r = a + b"
    and u: "u = map (map (take a)) x" and v: "v = map (map (drop a)) x"
    by (auto simp: split3_def split_row_def list_all_iff split: if_splits)
  from assms(2) have n: "\<forall>t\<in>set x. length t = n"
    by (auto simp: shape3_def list_all_iff)
  show "shape3 n a u" using w n unfolding u shape3_def list_all_iff by auto
  show "shape3 n b v" using w n unfolding v shape3_def list_all_iff by auto
qed


























subsection \<open>The example module\<close>

lemmas tensor_defs = bindE_def view2_def view3_def chunks_def pieces_def split2_def split3_def
  split_row_def cat2_def cat3_def pad_last_def slice_last_def bcast_def bcast_src_def
  assign_from_def assign_upto_def unflatten0_def deinterleave_row_def deinterleave_def dot_def
  F_linear_def matmul_def transpose01_def transpose2_def bmm_def view_weight_def empty_like_def
  shape_error_def








section \<open>Properties of DeepseekV3Attention.forward\<close>











section \<open>Properties of DeepseekV3MoE.forward\<close>

lemma ex_moe_eq:
  "ex_moe =
    \<lparr> hidden_dim = 2, moe_intermediate_size_per_shard = 1, moe_routed_scaling_factor = 1,
      gate = FastLinear [[1, 0], [0, 1]] None, e_score_correction_bias = None,
      moe_layer = (\<lambda>x g. Inr x),
      shared_experts =
        Some \<lparr> mlp_hidden_act = ''silu'', act = silu,
               gate_up_proj = FastLinear [[1, 0], [0, 1]] None,
               down_proj = (\<lambda>reduce. Inr), mlp_intermediate_size = 1,
               mlp_quantize = None \<rparr>,
      process_group = 1 \<rparr>"
  by (simp add: ex_moe_def DeepseekV3MoE_init_def DeepseekV3MLP_init_def ex_config_def
        ex_weights_def bindE_def Let_def)

lemma ex_moe_non_distributed:
  "moe_non_distributed ex_moe [[1, 2]] = Inr [[1 + silu 1 * 2, 2 + silu 1 * 2]]"
  by (simp add: ex_moe_eq moe_non_distributed_def DeepseekV3MLP_forward_def tensor_defs
        add2_def add_row_def bcast_pair_def view_as_def Let_def upt_rec)

text \<open>
  Claim C8: when the process group has size 1, forward does not call \<open>all_reduce\<close>, and
  what it returns (a tensor or an exception) is what the computation without a process
  group returns: the output of the MoE layer plus the output of the shared experts when
  there are shared experts, the output of the MoE layer otherwise, in the shape of the
  input. This holds whatever \<open>all_reduce\<close> would do.
\<close>

theorem moe_forward_single_worker:
  assumes "process_group self = 1"
  shows "DeepseekV3MoE_forward all_reduce self x =
           bindE (moe_non_distributed self x) (\<lambda>r. Inr (r, []))"
  using assms
  by (cases "shared_experts self")
     (auto simp: DeepseekV3MoE_forward_def moe_non_distributed_def bindE_def
           split: sum.splits option.splits)

theorem moe_forward_single_worker_witness:
  "process_group ex_moe = 1
   \<and> moe_non_distributed ex_moe [[1, 2]] = Inr [[1 + silu 1 * 2, 2 + silu 1 * 2]]
   \<and> DeepseekV3MoE_forward (\<lambda>t. Inl (RuntimeError ''no process group'')) ex_moe [[1, 2]]
       = Inr ([[1 + silu 1 * 2, 2 + silu 1 * 2]], [])"
proof -
  have pg: "process_group ex_moe = 1"
    by (simp add: ex_moe_eq)
  have "DeepseekV3MoE_forward (\<lambda>t. Inl (RuntimeError ''no process group'')) ex_moe [[1, 2]]
          = Inr ([[1 + silu 1 * 2, 2 + silu 1 * 2]], [])"
    unfolding moe_forward_single_worker [OF pg] ex_moe_non_distributed
    by (simp add: bindE_def)
  with pg ex_moe_non_distributed show ?thesis by (intro conjI)
qed

section \<open>Properties of load\_row\<close>


lemma length_all_reduce_sum [simp]: "length (all_reduce_sum n y) = length (y 0)"
  by (simp add: all_reduce_sum_def)

lemma length_all_reduce_sum_nth [simp]:
  "t < length (y 0) \<Longrightarrow> length (all_reduce_sum n y ! t) = length (y 0 ! t)"
  by (simp add: all_reduce_sum_def)











section \<open>Properties of the docker\_launcher fixture\<close>

lemmas docker_defs = bindIO_def docker_call_def logger_def container_stop_def
  container_remove_def print_stderr_def no_faults_def



lemma cleanup_stop_fails:
  assumes "containers d name = Some c" "f Get = None" "f Stop = Some x" "x \<noteq> NotFound"
  shows "cleanup f name d =
           d\<lparr>api_calls := api_calls d @ [(Get, name), (Stop, name)],
              logged := logged d @ [(''info'', ''Stopping container''),
                                    (''warning'', ''Error cleaning up container'')]\<rparr>"
  using assms by (simp add: cleanup_def docker_defs Let_def)







end
